theory Spec2Isabelle
  imports Complex_Main
begin

section \<open>Data model (types/index.ts)\<close>

text \<open>
  The interfaces of \<^verbatim>\<open>types/index.ts\<close> as records. A snapshot is read back from disk with
  \<^verbatim>\<open>JSON.parse\<close> and cast, so at run time any of its top-level fields may be absent; the
  code defends against that (\<^verbatim>\<open>data.projects || []\<close>, \<^verbatim>\<open>existing?.insights || []\<close>,
  \<^verbatim>\<open>context.excludedProjects || []\<close>). The fields of \<open>GlobalContext\<close> are therefore options,
  \<open>None\<close> being JavaScript's \<^verbatim>\<open>undefined\<close>. Reading a property of \<^verbatim>\<open>undefined\<close> is a
  \<^verbatim>\<open>TypeError\<close>, which the model returns as an error value.

  A field name that several interfaces share keeps its name in \<open>ProjectInfo\<close> and
  \<open>GlobalContext\<close> and carries a prefix elsewhere (\<open>pinsights\<close> is \<^verbatim>\<open>ProjectInfo.insights\<close>,
  \<open>sp_name\<close> is \<^verbatim>\<open>StaleProject.name\<close>).
\<close>

definition SCHEMA_VERSION :: int where
  "SCHEMA_VERSION = 1"

datatype language = Typescript | Javascript | Python | Rust | Go | Other

datatype insight_type = Pattern | Convention | Architecture | Notable | Todo

record ProjectInsight =
  itype :: insight_type
  title :: string
  idescription :: string
  source :: "string option"
  idiscoveredAt :: string

record hasFiles_t =
  claudeMd :: bool
  readme :: bool
  packageJson :: bool
  gitignore :: bool

record ProjectInfo =
  path :: string
  name :: string
  description :: string
  techStack :: "string list"
  language :: language
  lastActivity :: string
  currentBranch :: string
  isDirty :: bool
  hasFiles :: hasFiles_t
  pinsights :: "ProjectInsight list"
  lastScanned :: string

record GlobalInsight =
  content :: string
  relatedProjects :: "string list"
  discoveredAt :: string

record example_t =
  ex_project :: string
  ex_file :: string
  snippet :: "string option"

record UserPattern =
  up_name :: string
  up_description :: string
  examples :: "example_t list"

record GlobalContext =
  schemaVersion :: "int option"
  lastUpdated :: "string option"
  projects :: "ProjectInfo list option"
  insights :: "GlobalInsight list option"
  userPatterns :: "UserPattern list option"
  excludedProjects :: "string list option"

text \<open>The idiom \<^verbatim>\<open>xs || []\<close>: an absent list reads as the empty list.\<close>

definition orEmpty :: "'a list option \<Rightarrow> 'a list" where
  "orEmpty v = (case v of None \<Rightarrow> [] | Some xs \<Rightarrow> xs)"

datatype error =
    TypeError
  | SyntaxError
  | ENOENT
  | EACCES
  | VerificationFailed nat nat


section \<open>The live environment\<close>

text \<open>
  What the code reads from outside: the clock, the platform's date parser
  (\<^verbatim>\<open>new Date(s).getTime()\<close>, \<open>None\<close> for an invalid date, whose time value is NaN),
  \<^verbatim>\<open>fs.existsSync\<close>, the trimmed output of \<^verbatim>\<open>git log -1 --format=%cI\<close> run in a directory
  (\<open>None\<close> when \<^verbatim>\<open>execSync\<close> throws), \<^verbatim>\<open>fs.statSync(p).mtimeMs\<close> (\<open>None\<close> when it throws) and
  \<^verbatim>\<open>JSON.parse(readFileSync(p, 'utf-8'))\<close> of a package manifest (\<open>None\<close> when reading or
  parsing throws). The clock is read once per invocation.

  Of a parsed \<^verbatim>\<open>package.json\<close> the code reads the two dependency objects only; an absent
  object is the empty map, as the spread \<^verbatim>\<open>{...undefined}\<close> is empty.
\<close>

record pkg_json =
  dependencies :: "string \<rightharpoonup> string"
  devDependencies :: "string \<rightharpoonup> string"

record world =
  now_ms :: int
  now_iso :: string
  date_ms :: "string \<Rightarrow> int option"
  path_exists :: "string \<Rightarrow> bool"
  git_log :: "string \<Rightarrow> string option"
  mtime_ms :: "string \<Rightarrow> real option"
  package_json :: "string \<Rightarrow> pkg_json option"

text \<open>
  \<^verbatim>\<open>path.join\<close> of a directory and an entry name; the normalisation it applies to its
  operands is not modelled.
\<close>

definition join :: "string \<Rightarrow> string \<Rightarrow> string" where
  "join dir entry = dir @ ''/'' @ entry"

text \<open>Comparisons of JavaScript numbers: every comparison with NaN is false.\<close>

definition date_gt :: "int option \<Rightarrow> int option \<Rightarrow> bool" where
  "date_gt a b = (case (a, b) of (Some x, Some y) \<Rightarrow> x > y | _ \<Rightarrow> False)"

definition mtime_gt :: "real \<Rightarrow> int option \<Rightarrow> bool" where
  "mtime_gt m t = (case t of Some y \<Rightarrow> m > real_of_int y | None \<Rightarrow> False)"

definition num_ge :: "int option \<Rightarrow> int \<Rightarrow> bool" where
  "num_ge a k = (case a of Some x \<Rightarrow> x \<ge> k | None \<Rightarrow> False)"

text \<open>\<^verbatim>\<open>Math.floor((now.getTime() - d.getTime()) / unit)\<close>; NaN stays NaN.\<close>

definition floor_elapsed :: "int \<Rightarrow> int option \<Rightarrow> int \<Rightarrow> int option" where
  "floor_elapsed now d unit = map_option (\<lambda>t. (now - t) div unit) d"


section \<open>Staleness detection (scanner/stalenessDetector.ts)\<close>

datatype reason = Age | Git_activity | File_changed | Never_scanned

text \<open>
  The \<^verbatim>\<open>details\<close> text of a stale project, kept structured: the third form is the
  template \<^verbatim>\<open>Not scanned in ${daysSinceScanned} days\<close>.
\<close>

datatype details_text =
    New_commits_since_last_scan
  | Key_files_modified_since_last_scan
  | Not_scanned_in_days "int option"

record StaleProject =
  sp_name :: string
  sp_path :: string
  daysSinceScanned :: "int option"
  reason :: reason
  details :: "details_text option"

datatype summary_text =
    All_up_to_date nat
  | One_needs_updating string "details_text option"
  | Need_updating_critical nat nat
  | Could_use_a_refresh nat

record StalenessReport =
  dataAgeHours :: "int option"
  staleProjects :: "StaleProject list"
  freshCount :: int
  summary :: summary_text
  suggestion :: "string option"

definition WARNING :: int where "WARNING = 3"
definition STALE :: int where "STALE = 7"
definition CRITICAL :: int where "CRITICAL = 14"

definition hasNewCommits :: "world \<Rightarrow> string \<Rightarrow> string \<Rightarrow> bool" where
  "hasNewCommits w projectPath lastScanned_s =
     (if \<not> path_exists w (join projectPath ''.git'') then False
      else case git_log w projectPath of
             None \<Rightarrow> False
           | Some result \<Rightarrow>
               if result = [] then False
               else date_gt (date_ms w result) (date_ms w lastScanned_s))"

definition keyFiles :: "string list" where
  "keyFiles = [''package.json'', ''CLAUDE.md'', ''README.md'', ''Cargo.toml'',
               ''pyproject.toml'', ''go.mod'']"

fun anyModified :: "world \<Rightarrow> string \<Rightarrow> int option \<Rightarrow> string list \<Rightarrow> bool" where
  "anyModified w projectPath lastScannedTime [] = False"
| "anyModified w projectPath lastScannedTime (f # fs) =
     (let filePath = join projectPath f in
      if path_exists w filePath then
        (case mtime_ms w filePath of
           None \<Rightarrow> anyModified w projectPath lastScannedTime fs
         | Some m \<Rightarrow>
             if mtime_gt m lastScannedTime then True
             else anyModified w projectPath lastScannedTime fs)
      else anyModified w projectPath lastScannedTime fs)"

definition hasModifiedFiles :: "world \<Rightarrow> string \<Rightarrow> string \<Rightarrow> bool" where
  "hasModifiedFiles w projectPath lastScanned_s =
     anyModified w projectPath (date_ms w lastScanned_s) keyFiles"

definition analyzeProjectStaleness :: "world \<Rightarrow> ProjectInfo \<Rightarrow> StaleProject option" where
  "analyzeProjectStaleness w p =
     (let days = floor_elapsed (now_ms w) (date_ms w (lastScanned p)) (1000 * 60 * 60 * 24) in
      if hasNewCommits w (path p) (lastScanned p) then
        Some \<lparr>sp_name = name p, sp_path = path p, daysSinceScanned = days,
              reason = Git_activity, details = Some New_commits_since_last_scan\<rparr>
      else if hasModifiedFiles w (path p) (lastScanned p) then
        Some \<lparr>sp_name = name p, sp_path = path p, daysSinceScanned = days,
              reason = File_changed, details = Some Key_files_modified_since_last_scan\<rparr>
      else if num_ge days STALE then
        Some \<lparr>sp_name = name p, sp_path = path p, daysSinceScanned = days,
              reason = Age, details = Some (Not_scanned_in_days days)\<rparr>
      else None)"

text \<open>
  The loop of \<^verbatim>\<open>detectStaleProjects\<close> that pushes every non-null analysis, in the order of
  \<^verbatim>\<open>context.projects\<close>.
\<close>

fun collectStale :: "world \<Rightarrow> ProjectInfo list \<Rightarrow> StaleProject list" where
  "collectStale w [] = []"
| "collectStale w (p # ps) =
     (case analyzeProjectStaleness w p of
        None \<Rightarrow> collectStale w ps
      | Some s \<Rightarrow> s # collectStale w ps)"

text \<open>
  \<^verbatim>\<open>staleProjects.sort((a, b) => b.daysSinceScanned - a.daysSinceScanned)\<close>: a stable sort,
  most days first. A stale project never carries NaN days (\<open>collectStale_days\<close> below), so the
  key given to NaN here is never used.
\<close>

definition staleKey :: "StaleProject \<Rightarrow> int" where
  "staleKey s = (case daysSinceScanned s of Some d \<Rightarrow> - d | None \<Rightarrow> 0)"

definition detectStaleProjects :: "world \<Rightarrow> GlobalContext \<Rightarrow> error + StalenessReport" where
  "detectStaleProjects w context =
     (let lastUpdated_d = (case lastUpdated context of None \<Rightarrow> None | Some s \<Rightarrow> date_ms w s);
          age = floor_elapsed (now_ms w) lastUpdated_d (1000 * 60 * 60)
      in case projects context of
           None \<Rightarrow> Inl TypeError
         | Some ps \<Rightarrow>
             (let stale = sort_key staleKey (collectStale w ps);
                  fresh = int (length ps) - int (length stale)
              in Inr (case stale of
                   [] \<Rightarrow> \<lparr>dataAgeHours = age, staleProjects = stale, freshCount = fresh,
                          summary = All_up_to_date (length ps), suggestion = None\<rparr>
                 | [s] \<Rightarrow> \<lparr>dataAgeHours = age, staleProjects = stale, freshCount = fresh,
                           summary = One_needs_updating (sp_name s) (details s),
                           suggestion = Some ''claude-memory scan --quick''\<rparr>
                 | _ \<Rightarrow>
                     (let critical = filter (\<lambda>s. num_ge (daysSinceScanned s) CRITICAL) stale in
                      \<lparr>dataAgeHours = age, staleProjects = stale, freshCount = fresh,
                       summary = (if length critical > 0
                                  then Need_updating_critical (length stale) (length critical)
                                  else Could_use_a_refresh (length stale)),
                       suggestion = Some ''claude-memory scan --quick''\<rparr>))))"



section \<open>Project detection (scanner/projectScanner.ts)\<close>

text \<open>
  The directory tree that \<^verbatim>\<open>findProjectRoots\<close> walks. \<open>Unlistable\<close> is a directory whose
  \<^verbatim>\<open>readdirSync\<close> throws; \<open>Broken\<close> is an entry whose \<^verbatim>\<open>statSync\<close> throws. \<^verbatim>\<open>readdirSync\<close> on a
  plain file throws as well.
\<close>

datatype fsnode = File | Dir "(string \<times> fsnode) list" | Unlistable | Broken

fun isDirectory :: "fsnode \<Rightarrow> bool" where
  "isDirectory (Dir _) = True"
| "isDirectory Unlistable = True"
| "isDirectory _ = False"

definition isProject :: "string list \<Rightarrow> bool" where
  "isProject entries \<longleftrightarrow>
     ''package.json'' \<in> set entries \<or> ''Cargo.toml'' \<in> set entries \<or>
     ''pyproject.toml'' \<in> set entries \<or> ''go.mod'' \<in> set entries \<or>
     ''.git'' \<in> set entries"

text \<open>
  The depth budget is a JavaScript number: the command line passes
  \<^verbatim>\<open>parseInt(options.depth, 10)\<close>, which is NaN for \<^verbatim>\<open>--depth abc\<close> and infinite for a very long
  digit string. \<open>depth_exceeds depth maxDepth\<close> is the test \<^verbatim>\<open>depth > maxDepth\<close>: never true
  for NaN, so that a NaN budget is no limit at all.
\<close>

datatype jsnumber = NaN | Num real | PosInfinity | NegInfinity

definition depth_exceeds :: "int \<Rightarrow> jsnumber \<Rightarrow> bool" where
  "depth_exceeds depth maxDepth =
     (case maxDepth of
        NaN \<Rightarrow> False
      | Num m \<Rightarrow> real_of_int depth > m
      | PosInfinity \<Rightarrow> False
      | NegInfinity \<Rightarrow> True)"

text \<open>
  \<open>walk\<close> is the inner function of \<^verbatim>\<open>findProjectRoots\<close>; its result is what the call pushes
  onto \<^verbatim>\<open>roots\<close>, in order. \<open>walkEntries\<close> is its loop over the entries of a directory.
\<close>

fun walk :: "jsnumber \<Rightarrow> string list \<Rightarrow> string \<Rightarrow> fsnode \<Rightarrow> int \<Rightarrow> string list"
  and walkEntries :: "jsnumber \<Rightarrow> string list \<Rightarrow> string \<Rightarrow> (string \<times> fsnode) list \<Rightarrow> int \<Rightarrow> string list"
where
  "walk maxDepth ignore dir (Dir entries) depth =
     (if depth_exceeds depth maxDepth then []
      else if isProject (map fst entries) then [dir]
      else walkEntries maxDepth ignore dir entries depth)"
| "walk maxDepth ignore dir File depth = []"
| "walk maxDepth ignore dir Unlistable depth = []"
| "walk maxDepth ignore dir Broken depth = []"
| "walkEntries maxDepth ignore dir [] depth = []"
| "walkEntries maxDepth ignore dir ((entry, child) # rest) depth =
     (if entry \<in> set ignore then []
      else if isDirectory child then walk maxDepth ignore (join dir entry) child (depth + 1)
      else [])
     @ walkEntries maxDepth ignore dir rest depth"

definition findProjectRoots :: "string \<Rightarrow> fsnode \<Rightarrow> jsnumber \<Rightarrow> string list \<Rightarrow> string list" where
  "findProjectRoots rootDir tree maxDepth ignore = walk maxDepth ignore rootDir tree 0"


subsection \<open>Tech stack\<close>

text \<open>\<^verbatim>\<open>{ ...pkg.dependencies, ...pkg.devDependencies }\<close>: the later spread wins.\<close>

definition allDeps :: "pkg_json \<Rightarrow> (string \<rightharpoonup> string)" where
  "allDeps pkg = dependencies pkg ++ devDependencies pkg"

text \<open>A dependency entry is truthy when it is present and not the empty string.\<close>

definition has_dep :: "(string \<rightharpoonup> string) \<Rightarrow> string \<Rightarrow> bool" where
  "has_dep deps k = (case deps k of None \<Rightarrow> False | Some v \<Rightarrow> v \<noteq> [])"

definition frameworks :: "(string \<rightharpoonup> string) \<Rightarrow> string list" where
  "frameworks deps =
     (if has_dep deps ''react'' then [''React''] else []) @
     (if has_dep deps ''vue'' then [''Vue''] else []) @
     (if has_dep deps ''next'' then [''Next.js''] else []) @
     (if has_dep deps ''express'' then [''Express''] else []) @
     (if has_dep deps ''fastify'' then [''Fastify''] else []) @
     (if has_dep deps ''@anthropic-ai/sdk'' then [''Claude SDK''] else []) @
     (if has_dep deps ''@modelcontextprotocol/sdk'' then [''MCP''] else [])"

text \<open>
  The four checks of \<^verbatim>\<open>detectTechStack\<close>, each a step on the pair of the two local variables
  \<^verbatim>\<open>language\<close> and \<^verbatim>\<open>techStack\<close>, run in the order of the source.
\<close>

definition checkPackageJson :: "world \<Rightarrow> string \<Rightarrow> language \<times> string list \<Rightarrow> language \<times> string list" where
  "checkPackageJson w projectPath s =
     (let pkgPath = join projectPath ''package.json'' in
      if path_exists w pkgPath then
        (case package_json w pkgPath of
           None \<Rightarrow> s
         | Some pkg \<Rightarrow>
             (let deps = allDeps pkg in
              if has_dep deps ''typescript'' \<or> path_exists w (join projectPath ''tsconfig.json'')
              then (Typescript, snd s @ [''TypeScript''] @ frameworks deps)
              else (Javascript, snd s @ [''JavaScript''] @ frameworks deps)))
      else s)"

definition checkCargo :: "world \<Rightarrow> string \<Rightarrow> language \<times> string list \<Rightarrow> language \<times> string list" where
  "checkCargo w projectPath s =
     (if path_exists w (join projectPath ''Cargo.toml'') then (Rust, snd s @ [''Rust'']) else s)"

definition checkPython :: "world \<Rightarrow> string \<Rightarrow> language \<times> string list \<Rightarrow> language \<times> string list" where
  "checkPython w projectPath s =
     (if path_exists w (join projectPath ''pyproject.toml'') \<or>
         path_exists w (join projectPath ''requirements.txt'')
      then (Python, snd s @ [''Python'']) else s)"

definition checkGo :: "world \<Rightarrow> string \<Rightarrow> language \<times> string list \<Rightarrow> language \<times> string list" where
  "checkGo w projectPath s =
     (if path_exists w (join projectPath ''go.mod'') then (Go, snd s @ [''Go'']) else s)"

definition detectTechStack :: "world \<Rightarrow> string \<Rightarrow> language \<times> string list" where
  "detectTechStack w projectPath =
     checkGo w projectPath
       (checkPython w projectPath
          (checkCargo w projectPath
             (checkPackageJson w projectPath (Other, []))))"


section \<open>The context store (scanner/contextGenerator.ts)\<close>

text \<open>
  The memory directory as a store from path to content. A file either holds the JSON text of
  a snapshot (\<open>Json c\<close>: \<^verbatim>\<open>JSON.stringify\<close> writes it, \<^verbatim>\<open>JSON.parse\<close> gives \<open>c\<close> back, a field
  that is \<^verbatim>\<open>undefined\<close> being left out of the text), the markdown rendering of a snapshot, or
  other text, on which \<^verbatim>\<open>JSON.parse\<close> throws a \<^verbatim>\<open>SyntaxError\<close>.
\<close>

datatype file_content = Json GlobalContext | Markdown GlobalContext | Text string

record store =
  memdir :: bool
  files :: "string \<rightharpoonup> file_content"

text \<open>
  The disk under the store. \<open>stored d p c\<close> is what a later read of \<open>p\<close> returns after \<open>c\<close>
  was written to it with \<^verbatim>\<open>writeFileSync\<close> (the content itself on a reliable disk; something
  else when the write is corrupted or another process writes the same path);
  \<open>copy_fails\<close> says that \<^verbatim>\<open>copyFileSync\<close> throws. Apart from these the primitives fail only
  where a file they need is missing.
\<close>

record disk =
  stored :: "string \<Rightarrow> file_content \<Rightarrow> file_content"
  copy_fails :: bool

definition reliable :: disk where
  "reliable = \<lparr>stored = (\<lambda>p c. c), copy_fails = False\<rparr>"

definition MEMORY_DIR :: string where
  "MEMORY_DIR = ''~/.claude-memory''"

definition jsonPath :: string where "jsonPath = join MEMORY_DIR ''context.json''"
definition mdPath :: string where "mdPath = join MEMORY_DIR ''global-context.md''"
definition jsonTempPath :: string where "jsonTempPath = join MEMORY_DIR ''context.json.tmp''"
definition mdTempPath :: string where "mdTempPath = join MEMORY_DIR ''global-context.md.tmp''"
definition jsonBackupPath :: string where "jsonBackupPath = join MEMORY_DIR ''context.json.bak''"

definition existsSync :: "store \<Rightarrow> string \<Rightarrow> bool" where
  "existsSync st p \<longleftrightarrow> files st p \<noteq> None"

definition readFileSync :: "store \<Rightarrow> string \<Rightarrow> error + file_content" where
  "readFileSync st p = (case files st p of None \<Rightarrow> Inl ENOENT | Some c \<Rightarrow> Inr c)"

definition writeFileSync :: "disk \<Rightarrow> string \<Rightarrow> file_content \<Rightarrow> store \<Rightarrow> store" where
  "writeFileSync d p c st = st\<lparr>files := (files st)(p \<mapsto> stored d p c)\<rparr>"

definition copyFileSync :: "disk \<Rightarrow> string \<Rightarrow> string \<Rightarrow> store \<Rightarrow> error + store" where
  "copyFileSync d src dst st =
     (if copy_fails d then Inl EACCES
      else case files st src of
             None \<Rightarrow> Inl ENOENT
           | Some c \<Rightarrow> Inr (st\<lparr>files := (files st)(dst \<mapsto> c)\<rparr>))"

definition renameSync :: "string \<Rightarrow> string \<Rightarrow> store \<Rightarrow> error + store" where
  "renameSync src dst st =
     (case files st src of
        None \<Rightarrow> Inl ENOENT
      | Some c \<Rightarrow> Inr (st\<lparr>files := ((files st)(dst \<mapsto> c))(src := None)\<rparr>))"

definition unlinkSync :: "string \<Rightarrow> store \<Rightarrow> store" where
  "unlinkSync p st = st\<lparr>files := (files st)(p := None)\<rparr>"

definition JSON_parse :: "file_content \<Rightarrow> error + GlobalContext" where
  "JSON_parse c = (case c of Json v \<Rightarrow> Inr v | _ \<Rightarrow> Inl SyntaxError)"

text \<open>
  \<^verbatim>\<open>migrateContext\<close>. \<^verbatim>\<open>(data.schemaVersion as number) || 0\<close> reads an absent version as 0;
  \<^verbatim>\<open>(data.lastUpdated as string) || new Date().toISOString()\<close> replaces an absent or empty
  string by the current time, the parameter \<open>now\<close> here and in the functions that load.
\<close>

definition migrateContext :: "string \<Rightarrow> GlobalContext \<Rightarrow> GlobalContext" where
  "migrateContext now data =
     (let version = (case schemaVersion data of None \<Rightarrow> 0 | Some v \<Rightarrow> v) in
      if version < 1 then
        \<lparr>schemaVersion = Some SCHEMA_VERSION,
         lastUpdated = Some (case lastUpdated data of
                               None \<Rightarrow> now
                             | Some s \<Rightarrow> if s = [] then now else s),
         projects = Some (orEmpty (projects data)),
         insights = Some (orEmpty (insights data)),
         userPatterns = Some (orEmpty (userPatterns data)),
         excludedProjects = Some []\<rparr>
      else data)"

definition loadExistingContext :: "string \<Rightarrow> store \<Rightarrow> GlobalContext option" where
  "loadExistingContext now st =
     (if \<not> existsSync st jsonPath then None
      else case readFileSync st jsonPath of
             Inl _ \<Rightarrow> None
           | Inr txt \<Rightarrow>
               (case JSON_parse txt of
                  Inl _ \<Rightarrow> None
                | Inr data \<Rightarrow> Some (migrateContext now data)))"

text \<open>\<^verbatim>\<open>existing?.insights || []\<close>: empty when there is no snapshot or the field is absent.\<close>

definition carried :: "GlobalContext option \<Rightarrow> (GlobalContext \<Rightarrow> 'a list option) \<Rightarrow> 'a list" where
  "carried existing field = (case existing of None \<Rightarrow> [] | Some e \<Rightarrow> orEmpty (field e))"

definition generateGlobalContext :: "string \<Rightarrow> store \<Rightarrow> ProjectInfo list \<Rightarrow> GlobalContext" where
  "generateGlobalContext now st ps =
     (let existing = loadExistingContext now st in
      \<lparr>schemaVersion = Some SCHEMA_VERSION,
       lastUpdated = Some now,
       projects = Some ps,
       insights = Some (carried existing insights),
       userPatterns = Some (carried existing userPatterns),
       excludedProjects = Some (carried existing excludedProjects)\<rparr>)"

text \<open>
  \<^verbatim>\<open>formatGlobalContextMarkdown\<close> iterates \<^verbatim>\<open>context.projects\<close>, a \<^verbatim>\<open>TypeError\<close> when the field
  is absent; the text it builds is kept abstract as the rendering of the snapshot.
\<close>

definition formatGlobalContextMarkdown :: "GlobalContext \<Rightarrow> error + file_content" where
  "formatGlobalContextMarkdown context =
     (case projects context of None \<Rightarrow> Inl TypeError | Some _ \<Rightarrow> Inr (Markdown context))"

datatype message =
    No_projects_scanned_yet
  | Staleness_check StalenessReport
  | Scanner_banner
  | All_up_to_date_nothing_to_scan
  | Quick_mode_rescanning nat
  | No_projects_found_context_not_updated
  | Could_not_create_backup
  | Written_to nat
  | Failed_to_write_context error
  | Backup_available
  | Done_global_context_updated
  | Failed_to_update_exclusion_list

text \<open>
  The \<^verbatim>\<open>try\<close> block of \<^verbatim>\<open>writeGlobalContext\<close>: the error thrown if any, the store as the block
  left it, and the console output.
\<close>

definition backupStep :: "disk \<Rightarrow> store \<Rightarrow> store \<times> message list" where
  "backupStep d st =
     (if existsSync st jsonPath then
        (case copyFileSync d jsonPath jsonBackupPath st of
           Inl _ \<Rightarrow> (st, [Could_not_create_backup])
         | Inr st1 \<Rightarrow> (st1, []))
      else (st, []))"

definition verifyAndRename :: "GlobalContext \<Rightarrow> store \<Rightarrow> error option \<times> store" where
  "verifyAndRename context st =
     (case readFileSync st jsonTempPath of
        Inl e \<Rightarrow> (Some e, st)
      | Inr txt \<Rightarrow>
          (case JSON_parse txt of
             Inl e \<Rightarrow> (Some e, st)
           | Inr verification \<Rightarrow>
               (case projects verification of
                  None \<Rightarrow> (Some TypeError, st)
                | Some vps \<Rightarrow>
                    (case projects context of
                       None \<Rightarrow> (Some TypeError, st)
                     | Some cps \<Rightarrow>
                         if length vps \<noteq> length cps
                         then (Some (VerificationFailed (length cps) (length vps)), st)
                         else (case renameSync jsonTempPath jsonPath st of
                                 Inl e \<Rightarrow> (Some e, st)
                               | Inr st1 \<Rightarrow>
                                   (case renameSync mdTempPath mdPath st1 of
                                      Inl e \<Rightarrow> (Some e, st1)
                                    | Inr st2 \<Rightarrow> (None, st2)))))))"

definition tryWrite :: "disk \<Rightarrow> GlobalContext \<Rightarrow> store \<Rightarrow> error option \<times> store \<times> message list" where
  "tryWrite d context st =
     (let (st1, log1) = backupStep d st;
          st2 = writeFileSync d jsonTempPath (Json context) st1
      in case formatGlobalContextMarkdown context of
           Inl e \<Rightarrow> (Some e, st2, log1)
         | Inr mdContent \<Rightarrow>
             (let st3 = writeFileSync d mdTempPath mdContent st2;
                  (err, st4) = verifyAndRename context st3
              in case err of
                   Some e \<Rightarrow> (Some e, st4, log1)
                 | None \<Rightarrow> (None, st4, log1 @ [Written_to (length (orEmpty (projects context)))])))"

definition cleanup :: "store \<Rightarrow> store" where
  "cleanup st =
     (let st1 = (if existsSync st jsonTempPath then unlinkSync jsonTempPath st else st)
      in if existsSync st1 mdTempPath then unlinkSync mdTempPath st1 else st1)"

definition writeGlobalContext :: "disk \<Rightarrow> GlobalContext \<Rightarrow> store \<Rightarrow> (error + unit) \<times> store \<times> message list" where
  "writeGlobalContext d context st =
     (let st0 = (if \<not> memdir st then st\<lparr>memdir := True\<rparr> else st);
          (err, st1, log1) = tryWrite d context st0
      in case err of
           None \<Rightarrow> (Inr (), st1, log1)
         | Some e \<Rightarrow>
             (let st2 = cleanup st1
              in (Inl e, st2,
                  log1 @ [Failed_to_write_context e] @
                  (if existsSync st2 jsonBackupPath then [Backup_available] else []))))"

text \<open>
  The store at the point where \<^verbatim>\<open>writeGlobalContext\<close> has made the backup and written both
  temporary files, just before it reads the JSON file back.
\<close>

definition staged :: "disk \<Rightarrow> GlobalContext \<Rightarrow> store \<Rightarrow> store" where
  "staged d context st =
     writeFileSync d mdTempPath (Markdown context)
       (writeFileSync d jsonTempPath (Json context)
          (fst (backupStep d (if \<not> memdir st then st\<lparr>memdir := True\<rparr> else st))))"


section \<open>The scan command (cli.ts)\<close>

text \<open>The command line's own loader: \<^verbatim>\<open>JSON.parse\<close> without migration.\<close>

definition loadContext :: "store \<Rightarrow> GlobalContext option" where
  "loadContext st =
     (if \<not> existsSync st jsonPath then None
      else case readFileSync st jsonPath of
             Inl _ \<Rightarrow> None
           | Inr txt \<Rightarrow> (case JSON_parse txt of Inl _ \<Rightarrow> None | Inr data \<Rightarrow> Some data))"

text \<open>
  \<^verbatim>\<open>addExclusion\<close>, the write of the \<^verbatim>\<open>exclude\<close> command: it parses the file without
  migration, appends the path unless it is there, and writes the object back in place. It
  sets no \<^verbatim>\<open>schemaVersion\<close>.
\<close>

definition addExclusion :: "disk \<Rightarrow> string \<Rightarrow> store \<Rightarrow> store \<times> message list" where
  "addExclusion d projectPath st =
     (if \<not> existsSync st jsonPath then (st, [])
      else case readFileSync st jsonPath of
             Inl _ \<Rightarrow> (st, [Failed_to_update_exclusion_list])
           | Inr txt \<Rightarrow>
               (case JSON_parse txt of
                  Inl _ \<Rightarrow> (st, [Failed_to_update_exclusion_list])
                | Inr context \<Rightarrow>
                    (let excluded = orEmpty (excludedProjects context) in
                     if projectPath \<in> set excluded then (st, [])
                     else (writeFileSync d jsonPath
                             (Json (context\<lparr>excludedProjects :=
                                              Some (excluded @ [projectPath])\<rparr>)) st,
                           []))))"

record scan_options =
  check :: bool
  quick :: bool

text \<open>
  The quick-mode merge of the scan action (\<^verbatim>\<open>rescannedPaths\<close>, \<^verbatim>\<open>unchangedProjects\<close> and the
  spread of \<^verbatim>\<open>existingContext\<close>).
\<close>

definition quickMerge :: "string \<Rightarrow> GlobalContext \<Rightarrow> ProjectInfo list \<Rightarrow> error + GlobalContext" where
  "quickMerge now existingContext ps =
     (let rescannedPaths = set (map path ps) in
      case projects existingContext of
        None \<Rightarrow> Inl TypeError
      | Some eps \<Rightarrow>
          (let unchangedProjects = filter (\<lambda>p. path p \<notin> rescannedPaths) eps in
           Inr (existingContext\<lparr>lastUpdated := Some now,
                                projects := Some (unchangedProjects @ ps)\<rparr>)))"

text \<open>
  The first part of the action in quick mode: \<open>Inr None\<close> when nothing is stale and the
  action returns, \<open>Inr (Some projectsToScan)\<close> otherwise.
\<close>

definition quickPlan :: "world \<Rightarrow> scan_options \<Rightarrow> store \<Rightarrow> error + string list option option" where
  "quickPlan w opts st =
     (if quick opts then
        (case loadContext st of
           None \<Rightarrow> Inr (Some None)
         | Some existingContext \<Rightarrow>
             (case detectStaleProjects w existingContext of
                Inl e \<Rightarrow> Inl e
              | Inr report \<Rightarrow>
                  if length (staleProjects report) = 0 then Inr None
                  else Inr (Some (Some (map sp_path (staleProjects report))))))
      else Inr (Some None))"

definition mergeStep :: "world \<Rightarrow> scan_options \<Rightarrow> string list option \<Rightarrow> store \<Rightarrow> ProjectInfo list \<Rightarrow> error + GlobalContext" where
  "mergeStep w opts projectsToScan st ps =
     (if quick opts \<and> projectsToScan \<noteq> None then
        (case loadContext st of
           Some existingContext \<Rightarrow> quickMerge (now_iso w) existingContext ps
         | None \<Rightarrow> Inr (generateGlobalContext (now_iso w) st ps))
      else Inr (generateGlobalContext (now_iso w) st ps))"

text \<open>
  The action of the \<^verbatim>\<open>scan\<close> command. \<open>scanProjects\<close> stands for the scanner, which reads the
  project directories and writes nothing; its argument is \<^verbatim>\<open>onlyPaths\<close>.
\<close>

definition scanAction ::
  "disk \<Rightarrow> world \<Rightarrow> scan_options \<Rightarrow> (string list option \<Rightarrow> ProjectInfo list) \<Rightarrow> store
     \<Rightarrow> (error + unit) \<times> store \<times> message list" where
  "scanAction d w opts scanProjects st =
     (if check opts then
        (case loadContext st of
           None \<Rightarrow> (Inr (), st, [No_projects_scanned_yet])
         | Some context \<Rightarrow>
             (case detectStaleProjects w context of
                Inl e \<Rightarrow> (Inl e, st, [])
              | Inr report \<Rightarrow> (Inr (), st, [Staleness_check report])))
      else
        (case quickPlan w opts st of
           Inl e \<Rightarrow> (Inl e, st, [Scanner_banner])
         | Inr None \<Rightarrow> (Inr (), st, [Scanner_banner, All_up_to_date_nothing_to_scan])
         | Inr (Some projectsToScan) \<Rightarrow>
             (let log0 = Scanner_banner #
                         (case projectsToScan of
                            None \<Rightarrow> []
                          | Some paths \<Rightarrow> [Quick_mode_rescanning (length paths)]);
                  ps = scanProjects projectsToScan
              in if length ps = 0 then (Inr (), st, log0 @ [No_projects_found_context_not_updated])
                 else
                   (case mergeStep w opts projectsToScan st ps of
                      Inl e \<Rightarrow> (Inl e, st, log0)
                    | Inr context \<Rightarrow>
                        (case writeGlobalContext d context st of
                           (Inl e, st1, log1) \<Rightarrow> (Inl e, st1, log0 @ log1)
                         | (Inr _, st1, log1) \<Rightarrow>
                             (Inr (), st1, log0 @ log1 @ [Done_global_context_updated]))))))"


section \<open>Example inputs\<close>

text \<open>
  A small world on 9 January 2024: \<open>api\<close> and \<open>notes\<close> were last scanned eight days earlier,
  \<open>blog\<close> one day earlier; \<open>api\<close> is a git working copy whose latest commit is of 5 January.
\<close>

definition mkProject :: "string \<Rightarrow> string \<Rightarrow> string \<Rightarrow> ProjectInfo" where
  "mkProject p n scanned =
     \<lparr>path = p, name = n, description = ''No description available'', techStack = [],
      language = Other, lastActivity = scanned, currentBranch = ''unknown'', isDirty = False,
      hasFiles = \<lparr>claudeMd = False, readme = False, packageJson = False, gitignore = False\<rparr>,
      pinsights = [], lastScanned = scanned\<rparr>"

definition example_world :: world where
  "example_world =
     \<lparr>now_ms = 1704758400000,
      now_iso = ''2024-01-09T00:00:00.000Z'',
      date_ms = (\<lambda>s. if s = ''2024-01-01T00:00:00.000Z'' then Some 1704067200000
                     else if s = ''2024-01-05T12:00:00+00:00'' then Some 1704456000000
                     else if s = ''2024-01-08T00:00:00.000Z'' then Some 1704672000000
                     else None),
      path_exists = (\<lambda>p. p = ''/home/u/Projects/api/.git''),
      git_log = (\<lambda>p. if p = ''/home/u/Projects/api''
                     then Some ''2024-01-05T12:00:00+00:00'' else None),
      mtime_ms = (\<lambda>p. None),
      package_json = (\<lambda>p. None)\<rparr>"

definition api_project :: ProjectInfo where
  "api_project = mkProject ''/home/u/Projects/api'' ''api'' ''2024-01-01T00:00:00.000Z''"

definition notes_project :: ProjectInfo where
  "notes_project = mkProject ''/home/u/Projects/notes'' ''notes'' ''2024-01-01T00:00:00.000Z''"

definition blog_project :: ProjectInfo where
  "blog_project = mkProject ''/home/u/Projects/blog'' ''blog'' ''2024-01-08T00:00:00.000Z''"

definition example_context :: GlobalContext where
  "example_context =
     \<lparr>schemaVersion = Some 1, lastUpdated = Some ''2024-01-01T00:00:00.000Z'',
      projects = Some [blog_project, notes_project, api_project],
      insights = Some [\<lparr>content = ''auth is shared'', relatedProjects = [''api''],
                        discoveredAt = ''2024-01-01T00:00:00.000Z''\<rparr>],
      userPatterns = Some [],
      excludedProjects = Some [''/home/u/Projects/old'']\<rparr>"

definition example_report :: StalenessReport where
  "example_report =
     \<lparr>dataAgeHours = Some 192,
      staleProjects =
        [\<lparr>sp_name = ''notes'', sp_path = ''/home/u/Projects/notes'',
          daysSinceScanned = Some 8, reason = Age,
          details = Some (Not_scanned_in_days (Some 8))\<rparr>,
         \<lparr>sp_name = ''api'', sp_path = ''/home/u/Projects/api'',
          daysSinceScanned = Some 8, reason = Git_activity,
          details = Some New_commits_since_last_scan\<rparr>],
      freshCount = 1, summary = Could_use_a_refresh 2,
      suggestion = Some ''claude-memory scan --quick''\<rparr>"

text \<open>
  Stores: none yet, one holding the example snapshot, and one holding an older snapshot that
  knows \<open>blog\<close> only. \<open>truncating_disk\<close> loses all but the first project of a snapshot
  written to it.
\<close>

definition previous_context :: GlobalContext where
  "previous_context = example_context\<lparr>projects := Some [blog_project]\<rparr>"

definition empty_store :: store where
  "empty_store = \<lparr>memdir = False, files = Map.empty\<rparr>"

definition full_store :: store where
  "full_store = \<lparr>memdir = True, files = [jsonPath \<mapsto> Json example_context]\<rparr>"

definition example_store :: store where
  "example_store = \<lparr>memdir = True, files = [jsonPath \<mapsto> Json previous_context]\<rparr>"

definition truncating_disk :: disk where
  "truncating_disk =
     \<lparr>stored = (\<lambda>p c. case c of
                         Json v \<Rightarrow> Json (v\<lparr>projects := map_option (take 1) (projects v)\<rparr>)
                       | _ \<Rightarrow> c),
      copy_fails = False\<rparr>"

text \<open>
  Two snapshots below the current schema, each with one excluded project: one with
  \<^verbatim>\<open>schemaVersion\<close> 0, and one without the field, as the quick scan passes it on when the
  file on disk predates schema versions and the \<^verbatim>\<open>exclude\<close> command has added an exclusion.
\<close>

definition legacy_snapshot :: GlobalContext where
  "legacy_snapshot =
     \<lparr>schemaVersion = Some 0, lastUpdated = Some ''2024-01-01T00:00:00.000Z'',
      projects = Some [blog_project], insights = Some [], userPatterns = Some [],
      excludedProjects = Some [''/home/u/Projects/old'']\<rparr>"

definition unversioned_snapshot :: GlobalContext where
  "unversioned_snapshot = legacy_snapshot\<lparr>schemaVersion := None\<rparr>"

text \<open>
  A store whose \<^verbatim>\<open>context.json\<close> was written before schema versions existed (no
  \<^verbatim>\<open>schemaVersion\<close>, no \<^verbatim>\<open>excludedProjects\<close>), the same store after
  \<^verbatim>\<open>claude-memory exclude /home/u/Projects/old\<close>, and the snapshot a quick scan that has
  rescanned \<open>blog\<close> then hands to \<open>writeGlobalContext\<close>.
\<close>

definition legacy_store :: store where
  "legacy_store =
     \<lparr>memdir = True,
      files = [jsonPath \<mapsto> Json (unversioned_snapshot\<lparr>excludedProjects := None\<rparr>)]\<rparr>"

definition excluded_store :: store where
  "excluded_store = fst (addExclusion reliable ''/home/u/Projects/old'' legacy_store)"

definition blog_rescanned :: ProjectInfo where
  "blog_rescanned = blog_project\<lparr>lastScanned := ''2024-01-09T00:00:00.000Z''\<rparr>"

definition quick_merged_snapshot :: GlobalContext where
  "quick_merged_snapshot =
     unversioned_snapshot\<lparr>lastUpdated := Some ''2024-01-09T00:00:00.000Z'',
                           projects := Some [blog_rescanned]\<rparr>"

text \<open>
  The quick-scan scenario: \<open>blog\<close> is excluded, \<open>api\<close> is rescanned, \<open>notes\<close> is left alone.
\<close>

definition api_rescanned :: ProjectInfo where
  "api_rescanned = api_project\<lparr>lastScanned := ''2024-01-09T00:00:00.000Z''\<rparr>"

definition abc_context :: GlobalContext where
  "abc_context =
     example_context\<lparr>projects := Some [blog_project, api_project, notes_project],
                      excludedProjects := Some [''/home/u/Projects/blog'']\<rparr>"

definition abc_store :: store where
  "abc_store = \<lparr>memdir = True, files = [jsonPath \<mapsto> Json abc_context]\<rparr>"

text \<open>
  A root whose only subdirectory \<open>app\<close> is a project that contains a nested manifest, and
  the same project under a root whose only subdirectory bears the name of a marker.
\<close>

definition app_entries :: "(string \<times> fsnode) list" where
  "app_entries =
     [(''package.json'', File),
      (''src'', Dir [(''index.ts'', File)]),
      (''tools'', Dir [(''Cargo.toml'', File)])]"

definition nested_tree :: fsnode where
  "nested_tree = Dir [(''notes.txt'', File), (''app'', Dir app_entries)]"

definition marker_named_tree :: fsnode where
  "marker_named_tree = Dir [(''go.mod'', Dir app_entries)]"

text \<open>A project directory with both a JavaScript and a Rust manifest.\<close>

definition polyglot_world :: world where
  "polyglot_world =
     example_world
       \<lparr>path_exists := (\<lambda>p. p = ''/home/u/Projects/app/package.json'' \<or>
                            p = ''/home/u/Projects/app/Cargo.toml''),
        package_json := (\<lambda>p. if p = ''/home/u/Projects/app/package.json''
                              then Some \<lparr>dependencies = [''react'' \<mapsto> ''^18.2.0''],
                                         devDependencies = [''typescript'' \<mapsto> ''^5.3.0'']\<rparr>
                              else None)\<rparr>"

lemmas ex_defs = example_world_def api_project_def notes_project_def blog_project_def
  mkProject_def example_context_def


section \<open>Properties of the staleness evaluator\<close>

lemma analyze_reason:
  "analyzeProjectStaleness w p = Some s \<Longrightarrow> reason s \<in> {Git_activity, File_changed, Age}"
  by (auto simp: analyzeProjectStaleness_def Let_def split: if_splits)

lemma collectStale_reason:
  "s \<in> set (collectStale w ps) \<Longrightarrow> reason s \<in> {Git_activity, File_changed, Age}"
proof (induction ps)
  case Nil
  then show ?case by simp
next
  case (Cons p ps)
  then show ?case
    by (auto split: option.splits dest: analyze_reason)
qed

lemma staleProjects_detect:
  "detectStaleProjects w context = Inr report \<Longrightarrow>
   \<exists>ps. projects context = Some ps \<and> staleProjects report = sort_key staleKey (collectStale w ps)"
  by (auto simp: detectStaleProjects_def Let_def split: option.splits list.splits)

text \<open>
  With an invalid \<^verbatim>\<open>lastScanned\<close> no branch of the analysis fires, so a stale project always
  carries a number of days.
\<close>

lemma anyModified_valid: "anyModified w pp t fs \<Longrightarrow> t \<noteq> None"
  by (induction fs) (auto simp: Let_def mtime_gt_def split: if_splits option.splits)

lemma analyze_days:
  "analyzeProjectStaleness w p = Some s \<Longrightarrow> daysSinceScanned s \<noteq> None"
  by (auto simp: analyzeProjectStaleness_def Let_def hasNewCommits_def hasModifiedFiles_def
      date_gt_def num_ge_def floor_elapsed_def split: if_splits option.splits
      dest: anyModified_valid)

lemma collectStale_days:
  "s \<in> set (collectStale w ps) \<Longrightarrow> daysSinceScanned s \<noteq> None"
  by (induction ps) (auto split: option.splits dest: analyze_days)

lemma example_detect: "detectStaleProjects example_world example_context = Inr example_report"
  by code_simp

text \<open>
  Claim C6. The analysis of one project tests the reasons in the order \<open>git_activity\<close>,
  \<open>file_changed\<close>, \<open>age\<close> and reports the first that holds, and only that one: the result
  carries a single reason. In particular a project with new commits whose age has reached
  the threshold of 7 days is reported as \<open>git_activity\<close>, not as \<open>age\<close>.
\<close>

theorem analyzeProjectStaleness_priority:
  "map_option reason (analyzeProjectStaleness w p) =
     (if hasNewCommits w (path p) (lastScanned p) then Some Git_activity
      else if hasModifiedFiles w (path p) (lastScanned p) then Some File_changed
      else if num_ge (floor_elapsed (now_ms w) (date_ms w (lastScanned p)) 86400000) 7
      then Some Age
      else None)
   \<and> (hasNewCommits w (path p) (lastScanned p) \<and>
        num_ge (floor_elapsed (now_ms w) (date_ms w (lastScanned p)) 86400000) 7
        \<longrightarrow> map_option reason (analyzeProjectStaleness w p) = Some Git_activity)"
  by (simp add: analyzeProjectStaleness_def Let_def STALE_def)

theorem analyzeProjectStaleness_priority_witness:
  "hasNewCommits example_world (path api_project) (lastScanned api_project) \<and>
   num_ge (floor_elapsed (now_ms example_world)
            (date_ms example_world (lastScanned api_project)) 86400000) 7 \<and>
   map_option reason (analyzeProjectStaleness example_world api_project) = Some Git_activity"
  using analyzeProjectStaleness_priority [of example_world api_project]
  by (simp add: ex_defs hasNewCommits_def join_def date_gt_def num_ge_def floor_elapsed_def)

text \<open>
  Claim C7. For a project with no new commits and no modified key file since
  \<^verbatim>\<open>lastScanned\<close>: it is stale with reason \<open>age\<close> exactly when the whole days elapsed since
  \<^verbatim>\<open>lastScanned\<close> are at least 7, and fresh otherwise (an invalid \<^verbatim>\<open>lastScanned\<close> has no days
  elapsed and leaves the project fresh). When \<^verbatim>\<open>lastScanned\<close> is the instant \<open>t\<close>, that is when
  at least \<open>7 * 86400000\<close> milliseconds have passed since \<open>t\<close>. Scanned 8 days ago the
  project is stale with reason \<open>age\<close>; scanned 6 days ago it is fresh.
\<close>

theorem analyzeProjectStaleness_age:
  assumes "\<not> hasNewCommits w (path p) (lastScanned p)"
      and "\<not> hasModifiedFiles w (path p) (lastScanned p)"
  shows "(map_option reason (analyzeProjectStaleness w p) = Some Age
            \<longleftrightarrow> num_ge (floor_elapsed (now_ms w) (date_ms w (lastScanned p)) 86400000) 7)
       \<and> (analyzeProjectStaleness w p = None
            \<longleftrightarrow> \<not> num_ge (floor_elapsed (now_ms w) (date_ms w (lastScanned p)) 86400000) 7)
       \<and> (\<forall>t. date_ms w (lastScanned p) = Some t \<longrightarrow>
            (map_option reason (analyzeProjectStaleness w p) = Some Age
               \<longleftrightarrow> 7 \<le> (now_ms w - t) div 86400000)
          \<and> (analyzeProjectStaleness w p = None \<longleftrightarrow> (now_ms w - t) div 86400000 < 7)
          \<and> (7 \<le> (now_ms w - t) div 86400000 \<longleftrightarrow> 7 * 86400000 \<le> now_ms w - t)
          \<and> (now_ms w - t = 8 * 86400000
               \<longrightarrow> map_option reason (analyzeProjectStaleness w p) = Some Age)
          \<and> (now_ms w - t = 6 * 86400000 \<longrightarrow> analyzeProjectStaleness w p = None))"
  using assms
  by (auto simp: analyzeProjectStaleness_def Let_def STALE_def num_ge_def floor_elapsed_def)

theorem analyzeProjectStaleness_age_witness:
  "\<not> hasNewCommits example_world (path notes_project) (lastScanned notes_project) \<and>
   \<not> hasModifiedFiles example_world (path notes_project) (lastScanned notes_project) \<and>
   date_ms example_world (lastScanned notes_project) = Some 1704067200000 \<and>
   now_ms example_world - 1704067200000 = 8 * 86400000 \<and>
   map_option reason (analyzeProjectStaleness example_world notes_project) = Some Age \<and>
   now_ms (example_world\<lparr>now_ms := 1704585600000\<rparr>) - 1704067200000 = 6 * 86400000 \<and>
   analyzeProjectStaleness (example_world\<lparr>now_ms := 1704585600000\<rparr>) notes_project = None"
proof -
  let ?w6 = "example_world\<lparr>now_ms := 1704585600000\<rparr>"
  have c: "\<not> hasNewCommits example_world (path notes_project) (lastScanned notes_project)"
    by (simp add: ex_defs hasNewCommits_def join_def)
  have m: "\<not> hasModifiedFiles example_world (path notes_project) (lastScanned notes_project)"
    by (simp add: ex_defs hasModifiedFiles_def keyFiles_def join_def)
  have d: "date_ms example_world (lastScanned notes_project) = Some 1704067200000"
    by (simp add: ex_defs)
  have c6: "\<not> hasNewCommits ?w6 (path notes_project) (lastScanned notes_project)"
    by (simp add: ex_defs hasNewCommits_def join_def)
  have m6: "\<not> hasModifiedFiles ?w6 (path notes_project) (lastScanned notes_project)"
    by (simp add: ex_defs hasModifiedFiles_def keyFiles_def join_def)
  have d6: "date_ms ?w6 (lastScanned notes_project) = Some 1704067200000"
    by (simp add: ex_defs)
  have n8: "now_ms example_world - 1704067200000 = 8 * 86400000"
    by (simp add: example_world_def)
  have n6: "now_ms ?w6 - 1704067200000 = 6 * 86400000"
    by simp
  show ?thesis
    using c m d n8 n6 d6 analyzeProjectStaleness_age [OF c m] analyzeProjectStaleness_age [OF c6 m6]
    by (simp add: num_ge_def floor_elapsed_def)
qed

text \<open>
  Claim C10. Every stale project of a report of \<open>detectStaleProjects\<close> has reason
  \<open>git_activity\<close>, \<open>file_changed\<close> or \<open>age\<close>; the fourth reason of the type, \<open>never_scanned\<close>,
  is produced for no input.
\<close>

theorem detectStaleProjects_reasons:
  assumes "detectStaleProjects w context = Inr report"
  shows "\<forall>s \<in> set (staleProjects report).
           reason s \<in> {Git_activity, File_changed, Age} \<and> reason s \<noteq> Never_scanned"
proof
  fix s assume s: "s \<in> set (staleProjects report)"
  from staleProjects_detect [OF assms] obtain ps where
    "staleProjects report = sort_key staleKey (collectStale w ps)" by blast
  with s have "s \<in> set (collectStale w ps)" by simp
  then have "reason s \<in> {Git_activity, File_changed, Age}" by (rule collectStale_reason)
  then show "reason s \<in> {Git_activity, File_changed, Age} \<and> reason s \<noteq> Never_scanned"
    by auto
qed

theorem detectStaleProjects_reasons_witness:
  "detectStaleProjects example_world example_context = Inr example_report \<and>
   map reason (staleProjects example_report) = [Age, Git_activity] \<and>
   reason (staleProjects example_report ! 0) \<noteq> Never_scanned \<and>
   reason (staleProjects example_report ! 1) \<noteq> Never_scanned"
  using example_detect detectStaleProjects_reasons [OF example_detect]
  by (simp add: example_report_def)


section \<open>Properties of the project detector\<close>

lemma walkEntries_append:
  "walkEntries maxDepth ignore dir (xs @ ys) depth =
     walkEntries maxDepth ignore dir xs depth @ walkEntries maxDepth ignore dir ys depth"
proof (induction xs)
  case Nil
  then show ?case by simp
next
  case (Cons x xs)
  then show ?case by (cases x) simp
qed

lemma walkEntries_no_directory:
  "\<forall>e \<in> set xs. \<not> isDirectory (snd e) \<Longrightarrow> walkEntries maxDepth ignore dir xs depth = []"
proof (induction xs)
  case Nil
  then show ?case by simp
next
  case (Cons x xs)
  then show ?case by (cases x) simp
qed

lemma walkEntries_only_subdirectory:
  assumes "\<forall>e \<in> set (before @ after). \<not> isDirectory (snd e)"
  shows "walkEntries maxDepth ignore dir (before @ (sub, child) # after) depth =
           walkEntries maxDepth ignore dir [(sub, child)] depth"
proof -
  have b: "walkEntries maxDepth ignore dir before depth = []"
    using assms by (intro walkEntries_no_directory) simp
  have a: "walkEntries maxDepth ignore dir after depth = []"
    using assms by (intro walkEntries_no_directory) simp
  have "walkEntries maxDepth ignore dir (before @ [(sub, child)] @ after) depth =
          walkEntries maxDepth ignore dir [(sub, child)] depth"
    unfolding walkEntries_append using a b by simp
  then show ?thesis by simp
qed

text \<open>
  Claim C8, as amended. Whenever \<open>walk\<close> reaches a directory that the depth budget admits
  (\<^verbatim>\<open>depth > maxDepth\<close> is false) and whose listing contains a marker name, it returns that
  directory alone: nothing below it is visited. Consequently, for a listable root whose only
  subdirectory \<open>sub\<close> is a listable project (with whatever nested manifests below it, and
  with any plain files beside it in the root), the detector returns at most one project
  root and never a nested one: nothing if the budget does not admit depth 0; otherwise the
  root itself if the root's own listing contains a marker name; otherwise nothing if \<open>sub\<close>
  is on the ignore list or the budget does not admit depth 1; otherwise exactly \<open>sub\<close>, the
  outer project.
\<close>

theorem findProjectRoots_outer_only:
  "(\<not> depth_exceeds depth maxDepth \<and> isProject (map fst entries)
      \<longrightarrow> walk maxDepth ignore dir (Dir entries) depth = [dir])
   \<and> (isProject (map fst subEntries) \<and> (\<forall>e \<in> set (before @ after). \<not> isDirectory (snd e))
      \<longrightarrow> findProjectRoots rootDir (Dir (before @ (sub, Dir subEntries) # after)) maxDepth ignore =
           (if depth_exceeds 0 maxDepth then []
            else if isProject (map fst (before @ (sub, Dir subEntries) # after)) then [rootDir]
            else if sub \<in> set ignore \<or> depth_exceeds 1 maxDepth then []
            else [join rootDir sub]))"
proof (intro conjI impI)
  assume "\<not> depth_exceeds depth maxDepth \<and> isProject (map fst entries)"
  then show "walk maxDepth ignore dir (Dir entries) depth = [dir]" by simp
next
  assume h: "isProject (map fst subEntries) \<and>
             (\<forall>e \<in> set (before @ after). \<not> isDirectory (snd e))"
  then have only: "walkEntries maxDepth ignore rootDir (before @ (sub, Dir subEntries) # after) 0 =
                     walkEntries maxDepth ignore rootDir [(sub, Dir subEntries)] 0"
    by (intro walkEntries_only_subdirectory) simp
  from h have "isProject (map fst subEntries)" by simp
  then have sub: "walkEntries maxDepth ignore rootDir [(sub, Dir subEntries)] 0 =
                    (if sub \<in> set ignore \<or> depth_exceeds 1 maxDepth then []
                     else [join rootDir sub])"
    by simp
  show "findProjectRoots rootDir (Dir (before @ (sub, Dir subEntries) # after)) maxDepth ignore =
          (if depth_exceeds 0 maxDepth then []
           else if isProject (map fst (before @ (sub, Dir subEntries) # after)) then [rootDir]
           else if sub \<in> set ignore \<or> depth_exceeds 1 maxDepth then []
           else [join rootDir sub])"
    unfolding findProjectRoots_def walk.simps only sub by simp
qed

theorem findProjectRoots_outer_only_witness:
  "isProject (map fst app_entries) \<and>
   \<not> depth_exceeds 1 (Num 2) \<and>
   walk (Num 2) [''node_modules''] ''/home/u/Projects/app'' (Dir app_entries) 1 =
     [''/home/u/Projects/app''] \<and>
   findProjectRoots ''/home/u/Projects'' nested_tree (Num 2) [''node_modules''] =
     [''/home/u/Projects/app''] \<and>
   findProjectRoots ''/home/u/Projects'' nested_tree NaN [''node_modules''] =
     [''/home/u/Projects/app''] \<and>
   findProjectRoots ''/home/u/Projects'' marker_named_tree (Num 0) [] = [''/home/u/Projects'']"
proof -
  have p: "isProject (map fst app_entries)"
    by (simp add: app_entries_def isProject_def)
  have f: "\<forall>e \<in> set ([(''notes.txt'', File)] @ []). \<not> isDirectory (snd e)"
    by simp
  have g: "\<forall>e \<in> set ([] @ [] :: (string \<times> fsnode) list). \<not> isDirectory (snd e)"
    by simp
  show ?thesis
    using p
      findProjectRoots_outer_only
        [of 1 "Num 2" app_entries "[''node_modules'']" "''/home/u/Projects/app''" app_entries
            "[(''notes.txt'', File)]" "[]" "''/home/u/Projects''" "''app''"]
      findProjectRoots_outer_only
        [of 1 NaN app_entries "[''node_modules'']" "''/home/u/Projects/app''" app_entries
            "[(''notes.txt'', File)]" "[]" "''/home/u/Projects''" "''app''"]
      findProjectRoots_outer_only
        [of 0 "Num 0" app_entries "[]" "''/home/u/Projects''" app_entries
            "[]" "[]" "''/home/u/Projects''" "''go.mod''"]
    by (simp add: nested_tree_def marker_named_tree_def depth_exceeds_def isProject_def
        join_def)
qed

text \<open>
  The claim as stated, for every depth budget and ignore list, fails: with a depth budget of
  0 the subdirectory is never listed, and with its name on the ignore list it is skipped;
  in both cases the detector returns no project root at all.
\<close>

theorem findProjectRoots_counterexample:
  "isProject (map fst app_entries) \<and>
   findProjectRoots ''/home/u/Projects'' nested_tree (Num 0) [] = [] \<and>
   findProjectRoots ''/home/u/Projects'' nested_tree (Num 2) [''app''] = []"
  by (simp add: findProjectRoots_def nested_tree_def app_entries_def isProject_def
      depth_exceeds_def)

text \<open>
  Claim C9. The tech stack is the concatenation of what each ecosystem present contributes,
  in the order of the checks (package manifest, Cargo, Python, Go), and the language is that
  of the last check that matched. A \<^verbatim>\<open>package.json\<close> that parses contributes \<open>TypeScript\<close> or
  \<open>JavaScript\<close> followed by its frameworks. In particular a directory with a parsed
  \<^verbatim>\<open>package.json\<close> and a \<^verbatim>\<open>Cargo.toml\<close> (and no Python or Go manifest) has entries from
  both ecosystems and the language \<open>rust\<close>.
\<close>

theorem detectTechStack_accumulates:
  "snd (detectTechStack w p) =
     snd (checkPackageJson w p (Other, [])) @
     (if path_exists w (join p ''Cargo.toml'') then [''Rust''] else []) @
     (if path_exists w (join p ''pyproject.toml'') \<or> path_exists w (join p ''requirements.txt'')
      then [''Python''] else []) @
     (if path_exists w (join p ''go.mod'') then [''Go''] else [])
   \<and> fst (detectTechStack w p) =
     (if path_exists w (join p ''go.mod'') then Go
      else if path_exists w (join p ''pyproject.toml'') \<or>
              path_exists w (join p ''requirements.txt'') then Python
      else if path_exists w (join p ''Cargo.toml'') then Rust
      else fst (checkPackageJson w p (Other, [])))
   \<and> (\<forall>pkg. path_exists w (join p ''package.json'') \<and>
             package_json w (join p ''package.json'') = Some pkg \<longrightarrow>
        checkPackageJson w p (Other, []) =
          (if has_dep (allDeps pkg) ''typescript'' \<or> path_exists w (join p ''tsconfig.json'')
           then (Typescript, ''TypeScript'' # frameworks (allDeps pkg))
           else (Javascript, ''JavaScript'' # frameworks (allDeps pkg))))
   \<and> (\<forall>pkg. path_exists w (join p ''package.json'') \<and>
             package_json w (join p ''package.json'') = Some pkg \<and>
             path_exists w (join p ''Cargo.toml'') \<and>
             \<not> path_exists w (join p ''pyproject.toml'') \<and>
             \<not> path_exists w (join p ''requirements.txt'') \<and>
             \<not> path_exists w (join p ''go.mod'') \<longrightarrow>
        fst (detectTechStack w p) = Rust \<and>
        ''Rust'' \<in> set (snd (detectTechStack w p)) \<and>
        (''TypeScript'' \<in> set (snd (detectTechStack w p)) \<or>
         ''JavaScript'' \<in> set (snd (detectTechStack w p))))"
  by (auto simp: detectTechStack_def checkGo_def checkPython_def checkCargo_def
      checkPackageJson_def Let_def)

theorem detectTechStack_accumulates_witness:
  "path_exists polyglot_world (join ''/home/u/Projects/app'' ''package.json'') \<and>
   package_json polyglot_world (join ''/home/u/Projects/app'' ''package.json'') =
     Some \<lparr>dependencies = [''react'' \<mapsto> ''^18.2.0''],
           devDependencies = [''typescript'' \<mapsto> ''^5.3.0'']\<rparr> \<and>
   path_exists polyglot_world (join ''/home/u/Projects/app'' ''Cargo.toml'') \<and>
   \<not> path_exists polyglot_world (join ''/home/u/Projects/app'' ''pyproject.toml'') \<and>
   \<not> path_exists polyglot_world (join ''/home/u/Projects/app'' ''requirements.txt'') \<and>
   \<not> path_exists polyglot_world (join ''/home/u/Projects/app'' ''go.mod'') \<and>
   detectTechStack polyglot_world ''/home/u/Projects/app'' =
     (Rust, [''TypeScript'', ''React'', ''Rust''])"
  using detectTechStack_accumulates [of polyglot_world "''/home/u/Projects/app''"]
  by (simp add: polyglot_world_def example_world_def join_def allDeps_def has_dep_def
      frameworks_def prod_eq_iff)


section \<open>Properties of the context store\<close>

lemma paths_distinct:
  "jsonPath \<noteq> jsonTempPath" "jsonPath \<noteq> mdTempPath" "jsonPath \<noteq> jsonBackupPath"
  "jsonPath \<noteq> mdPath" "jsonTempPath \<noteq> mdTempPath" "jsonTempPath \<noteq> jsonBackupPath"
  "jsonTempPath \<noteq> mdPath" "mdTempPath \<noteq> jsonBackupPath" "mdTempPath \<noteq> mdPath"
  "jsonBackupPath \<noteq> mdPath"
  by (simp_all add: jsonPath_def jsonTempPath_def mdTempPath_def jsonBackupPath_def mdPath_def
      join_def MEMORY_DIR_def)

lemmas paths_neq = paths_distinct paths_distinct [symmetric]

lemma backupStep_files:
  "files (fst (backupStep d st)) =
     (if existsSync st jsonPath \<and> \<not> copy_fails d
      then (files st)(jsonBackupPath := files st jsonPath) else files st)"
  by (auto simp: backupStep_def copyFileSync_def existsSync_def split: option.splits)

lemma staged_files:
  "files (staged d context st) =
     (files (fst (backupStep d st)))
       (jsonTempPath \<mapsto> stored d jsonTempPath (Json context),
        mdTempPath \<mapsto> stored d mdTempPath (Markdown context))"
  by (auto simp: staged_def writeFileSync_def backupStep_def copyFileSync_def existsSync_def
      split: option.splits)

lemma tryWrite_staged:
  assumes "projects context = Some cps"
  shows "tryWrite d context (if \<not> memdir st then st\<lparr>memdir := True\<rparr> else st) =
     (case verifyAndRename context (staged d context st) of
        (Some e, st4) \<Rightarrow> (Some e, st4, snd (backupStep d st))
      | (None, st4) \<Rightarrow> (None, st4, snd (backupStep d st) @ [Written_to (length cps)]))"
  using assms
  by (auto simp: tryWrite_def staged_def formatGlobalContextMarkdown_def Let_def orEmpty_def
      backupStep_def copyFileSync_def existsSync_def
      split: prod.splits option.splits sum.splits)

lemma verify_mismatch:
  assumes "projects context = Some cps"
      and "stored d jsonTempPath (Json context) = Json v"
      and "projects v = Some vps"
      and "length vps \<noteq> length cps"
  shows "verifyAndRename context (staged d context st) =
           (Some (VerificationFailed (length cps) (length vps)), staged d context st)"
  using assms
  by (simp add: verifyAndRename_def readFileSync_def staged_files JSON_parse_def paths_neq)

lemma verify_ok:
  assumes "projects context = Some cps"
      and "stored d jsonTempPath (Json context) = Json context"
  shows "\<exists>st4. verifyAndRename context (staged d context st) = (None, st4) \<and>
           files st4 jsonPath = Some (Json context) \<and>
           files st4 mdPath = Some (stored d mdTempPath (Markdown context)) \<and>
           files st4 jsonTempPath = None \<and> files st4 mdTempPath = None"
  using assms
  by (simp add: verifyAndRename_def readFileSync_def staged_files JSON_parse_def paths_neq
      renameSync_def)

lemma cleanup_files:
  "files (cleanup st) = (files st)(jsonTempPath := None, mdTempPath := None)"
  by (auto simp: cleanup_def unlinkSync_def existsSync_def Let_def)

lemma load_Json:
  "files st jsonPath = Some (Json c) \<Longrightarrow>
   loadExistingContext now st = Some (migrateContext now c)"
  by (simp add: loadExistingContext_def existsSync_def readFileSync_def JSON_parse_def)

lemma load_same_file:
  "files a jsonPath = files b jsonPath \<Longrightarrow> loadExistingContext now a = loadExistingContext now b"
  by (simp add: loadExistingContext_def existsSync_def readFileSync_def)

lemma migrate_current:
  "schemaVersion S = Some v \<Longrightarrow> 1 \<le> v \<Longrightarrow> migrateContext now S = S"
  by (simp add: migrateContext_def)

lemma migrate_keeps:
  "orEmpty (projects (migrateContext now S)) = orEmpty (projects S)"
  "orEmpty (insights (migrateContext now S)) = orEmpty (insights S)"
  "orEmpty (userPatterns (migrateContext now S)) = orEmpty (userPatterns S)"
  by (simp_all add: migrateContext_def orEmpty_def Let_def)

text \<open>
  Claim C1. Let the temporary JSON file, read back, parse to a snapshot \<open>v\<close> whose project
  count differs from that of the snapshot \<open>context\<close> being written. Then \<open>writeGlobalContext\<close>
  raises the verification error; \<^verbatim>\<open>context.json\<close> and \<^verbatim>\<open>global-context.md\<close> hold what they
  held before (no rename has happened), so loading returns what it returned before; both
  temporary files are gone; and apart from the backup copy no other file has changed.
\<close>

theorem writeGlobalContext_verification_mismatch:
  assumes "projects context = Some cps"
      and "stored d jsonTempPath (Json context) = Json v"
      and "projects v = Some vps"
      and "length vps \<noteq> length cps"
  shows "fst (writeGlobalContext d context st) =
           Inl (VerificationFailed (length cps) (length vps))
       \<and> files (fst (snd (writeGlobalContext d context st))) jsonPath = files st jsonPath
       \<and> files (fst (snd (writeGlobalContext d context st))) mdPath = files st mdPath
       \<and> files (fst (snd (writeGlobalContext d context st))) jsonTempPath = None
       \<and> files (fst (snd (writeGlobalContext d context st))) mdTempPath = None
       \<and> (\<forall>p. p \<noteq> jsonBackupPath \<and> p \<noteq> jsonTempPath \<and> p \<noteq> mdTempPath
             \<longrightarrow> files (fst (snd (writeGlobalContext d context st))) p = files st p)
       \<and> loadExistingContext now (fst (snd (writeGlobalContext d context st))) =
           loadExistingContext now st"
proof -
  let ?err = "VerificationFailed (length cps) (length vps)"
  have w: "writeGlobalContext d context st =
     (Inl ?err, cleanup (staged d context st),
      snd (backupStep d st) @ [Failed_to_write_context ?err] @
      (if existsSync (cleanup (staged d context st)) jsonBackupPath
       then [Backup_available] else []))"
    unfolding writeGlobalContext_def Let_def tryWrite_staged [OF assms(1)]
      verify_mismatch [OF assms]
    by simp
  have f: "files (cleanup (staged d context st)) jsonPath = files st jsonPath"
    by (simp add: cleanup_files staged_files backupStep_files paths_neq)
  show ?thesis
    unfolding w
    by (simp add: load_same_file [OF f])
       (simp add: cleanup_files staged_files backupStep_files paths_neq)
qed

theorem writeGlobalContext_verification_mismatch_witness:
  "projects example_context = Some [blog_project, notes_project, api_project] \<and>
   stored truncating_disk jsonTempPath (Json example_context) = Json previous_context \<and>
   projects previous_context = Some [blog_project] \<and>
   fst (writeGlobalContext truncating_disk example_context example_store) =
     Inl (VerificationFailed 3 1) \<and>
   files (fst (snd (writeGlobalContext truncating_disk example_context example_store)))
     jsonPath = Some (Json previous_context) \<and>
   files (fst (snd (writeGlobalContext truncating_disk example_context example_store)))
     jsonTempPath = None \<and>
   files (fst (snd (writeGlobalContext truncating_disk example_context example_store)))
     mdTempPath = None"
proof -
  have p: "projects example_context = Some [blog_project, notes_project, api_project]"
    by (simp add: example_context_def)
  have s: "stored truncating_disk jsonTempPath (Json example_context) = Json previous_context"
    by (simp add: truncating_disk_def previous_context_def example_context_def)
  have v: "projects previous_context = Some [blog_project]"
    by (simp add: previous_context_def)
  have n: "length [blog_project] \<noteq> length [blog_project, notes_project, api_project]"
    by simp
  show ?thesis
    using p s v
      writeGlobalContext_verification_mismatch
        [OF p s v n, of example_store "''2024-01-09T00:00:00.000Z''"]
    by (simp add: example_store_def paths_neq)
qed

text \<open>
  A write/read cycle on a disk that returns the temporary file as written: the write
  succeeds and the load returns the migration of the snapshot written, with its project
  count and its insights. A snapshot of the current schema comes back as it is. For a
  snapshot whose \<^verbatim>\<open>schemaVersion\<close> is absent or below 1 the migration returns an empty
  exclusion list, whatever the snapshot held.
\<close>

lemma persist_then_load:
  assumes "projects S = Some ps"
      and "stored d jsonTempPath (Json S) = Json S"
  shows "fst (writeGlobalContext d S st) = Inr ()
       \<and> loadExistingContext now (fst (snd (writeGlobalContext d S st))) =
           Some (migrateContext now S)
       \<and> map_option length (projects (migrateContext now S)) = Some (length ps)
       \<and> orEmpty (insights (migrateContext now S)) = orEmpty (insights S)
       \<and> (\<forall>v. schemaVersion S = Some v \<and> 1 \<le> v \<longrightarrow>
              migrateContext now S = S
              \<and> excludedProjects (migrateContext now S) = excludedProjects S
              \<and> insights (migrateContext now S) = insights S)
       \<and> (schemaVersion S = None \<or> (\<exists>v. schemaVersion S = Some v \<and> v < 1) \<longrightarrow>
              excludedProjects (migrateContext now S) = Some [])"
proof -
  from verify_ok [OF assms, of st] obtain st4 where
    v: "verifyAndRename S (staged d S st) = (None, st4)" and
    f: "files st4 jsonPath = Some (Json S)"
    by blast
  have w: "writeGlobalContext d S st =
             (Inr (), st4, snd (backupStep d st) @ [Written_to (length ps)])"
    unfolding writeGlobalContext_def Let_def tryWrite_staged [OF assms(1)] v by simp
  have c: "map_option length (projects (migrateContext now S)) = Some (length ps)"
    using assms(1) by (simp add: migrateContext_def orEmpty_def Let_def)
  have z: "schemaVersion S = None \<or> (\<exists>v. schemaVersion S = Some v \<and> v < 1) \<longrightarrow>
             excludedProjects (migrateContext now S) = Some []"
    by (auto simp: migrateContext_def)
  show ?thesis
    unfolding w using c z
    by (simp add: load_Json [OF f] migrate_keeps migrate_current)
qed

lemma persist_then_load_example:
  "projects example_context = Some [blog_project, notes_project, api_project] \<and>
   stored reliable jsonTempPath (Json example_context) = Json example_context \<and>
   schemaVersion example_context = Some 1 \<and>
   fst (writeGlobalContext reliable example_context example_store) = Inr () \<and>
   loadExistingContext ''2024-01-09T00:00:00.000Z''
     (fst (snd (writeGlobalContext reliable example_context example_store))) =
     Some example_context"
proof -
  have p: "projects example_context = Some [blog_project, notes_project, api_project]"
    by (simp add: example_context_def)
  have s: "stored reliable jsonTempPath (Json example_context) = Json example_context"
    by (simp add: reliable_def)
  have v: "schemaVersion example_context = Some 1"
    by (simp add: example_context_def)
  show ?thesis
    using p s v persist_then_load [OF p s, of example_store "''2024-01-09T00:00:00.000Z''"]
    by simp
qed

text \<open>
  Claim C2. The durable fields are to survive a write/read cycle for every snapshot. They
  do not for a snapshot below schema 1 that carries exclusions, and the program makes such
  snapshots itself: \<^verbatim>\<open>exclude\<close> on a file written before schema versions adds the exclusion
  and no version, the quick scan merges into what the unmigrated \<open>loadContext\<close> returns and
  passes the result to \<open>writeGlobalContext\<close>, and the next \<open>loadExistingContext\<close> migrates the
  file and returns no exclusion. \<open>migrateContext\<close> keeps \<^verbatim>\<open>data.insights || []\<close> and
  \<^verbatim>\<open>data.userPatterns || []\<close> but writes \<^verbatim>\<open>excludedProjects: []\<close>. The same happens to a
  snapshot with \<^verbatim>\<open>schemaVersion\<close> 0.
\<close>

theorem persist_then_load_drops_exclusions:
  "loadContext excluded_store = Some unversioned_snapshot \<and>
   mergeStep example_world \<lparr>check = False, quick = True\<rparr> (Some [''/home/u/Projects/blog''])
       excluded_store [blog_rescanned] = Inr quick_merged_snapshot \<and>
   schemaVersion quick_merged_snapshot = None \<and>
   excludedProjects quick_merged_snapshot = Some [''/home/u/Projects/old''] \<and>
   fst (writeGlobalContext reliable quick_merged_snapshot excluded_store) = Inr () \<and>
   map_option excludedProjects
     (loadExistingContext ''2024-01-09T00:00:00.000Z''
        (fst (snd (writeGlobalContext reliable quick_merged_snapshot excluded_store)))) =
     Some (Some []) \<and>
   schemaVersion legacy_snapshot = Some 0 \<and>
   excludedProjects legacy_snapshot = Some [''/home/u/Projects/old''] \<and>
   fst (writeGlobalContext reliable legacy_snapshot empty_store) = Inr () \<and>
   map_option excludedProjects
     (loadExistingContext ''2024-01-09T00:00:00.000Z''
        (fst (snd (writeGlobalContext reliable legacy_snapshot empty_store)))) =
     Some (Some [])"
  by code_simp

text \<open>
  The full merge: the projects are the new list, whatever it is, and the insights, user
  patterns and exclusions are those of the snapshot \<open>loadExistingContext\<close> returns (an absent
  list reading as the empty one), empty when it returns none. For a file of the current
  schema these are the lists of the file itself.
\<close>

lemma generateGlobalContext_carries_over:
  "projects (generateGlobalContext now st ps) = Some ps
   \<and> (loadExistingContext now st = None \<longrightarrow>
        insights (generateGlobalContext now st ps) = Some [] \<and>
        userPatterns (generateGlobalContext now st ps) = Some [] \<and>
        excludedProjects (generateGlobalContext now st ps) = Some [])
   \<and> (\<forall>e. loadExistingContext now st = Some e \<longrightarrow>
        insights (generateGlobalContext now st ps) = Some (orEmpty (insights e)) \<and>
        userPatterns (generateGlobalContext now st ps) = Some (orEmpty (userPatterns e)) \<and>
        excludedProjects (generateGlobalContext now st ps) =
          Some (orEmpty (excludedProjects e)))
   \<and> (\<forall>e v. files st jsonPath = Some (Json e) \<and> schemaVersion e = Some v \<and> 1 \<le> v \<longrightarrow>
        insights (generateGlobalContext now st ps) = Some (orEmpty (insights e)) \<and>
        userPatterns (generateGlobalContext now st ps) = Some (orEmpty (userPatterns e)) \<and>
        excludedProjects (generateGlobalContext now st ps) =
          Some (orEmpty (excludedProjects e)))"
  by (auto simp: generateGlobalContext_def carried_def Let_def load_Json migrate_current)

lemma generateGlobalContext_carries_over_example:
  "loadExistingContext ''2024-01-09T00:00:00.000Z'' full_store = Some example_context \<and>
   loadExistingContext ''2024-01-09T00:00:00.000Z'' empty_store = None \<and>
   files full_store jsonPath = Some (Json example_context) \<and>
   schemaVersion example_context = Some 1 \<and>
   projects (generateGlobalContext ''2024-01-09T00:00:00.000Z'' full_store []) = Some [] \<and>
   insights (generateGlobalContext ''2024-01-09T00:00:00.000Z'' full_store []) =
     insights example_context \<and>
   userPatterns (generateGlobalContext ''2024-01-09T00:00:00.000Z'' full_store []) =
     userPatterns example_context \<and>
   excludedProjects (generateGlobalContext ''2024-01-09T00:00:00.000Z'' full_store []) =
     Some [''/home/u/Projects/old''] \<and>
   excludedProjects (generateGlobalContext ''2024-01-09T00:00:00.000Z'' empty_store []) =
     Some []"
proof -
  have f: "files full_store jsonPath = Some (Json example_context)"
    by (simp add: full_store_def)
  have v: "schemaVersion example_context = Some 1"
    by (simp add: example_context_def)
  have l: "loadExistingContext ''2024-01-09T00:00:00.000Z'' full_store = Some example_context"
    by (simp add: load_Json [OF f] migrate_current [OF v])
  have n: "loadExistingContext ''2024-01-09T00:00:00.000Z'' empty_store = None"
    by (simp add: loadExistingContext_def existsSync_def empty_store_def)
  show ?thesis
    using f v l n
      generateGlobalContext_carries_over [of "''2024-01-09T00:00:00.000Z''" full_store "[]"]
      generateGlobalContext_carries_over [of "''2024-01-09T00:00:00.000Z''" empty_store "[]"]
    by (simp add: example_context_def orEmpty_def)
qed

text \<open>
  In terms of the file: insights and user patterns are carried over from every prior
  \<^verbatim>\<open>context.json\<close>, the exclusions only from one whose \<^verbatim>\<open>schemaVersion\<close> is at least 1.
\<close>

lemma generateGlobalContext_from_file:
  assumes "files st jsonPath = Some (Json e)"
  shows "projects (generateGlobalContext now st ps) = Some ps"
    and "insights (generateGlobalContext now st ps) = Some (orEmpty (insights e))"
    and "userPatterns (generateGlobalContext now st ps) = Some (orEmpty (userPatterns e))"
    and "excludedProjects (generateGlobalContext now st ps) =
           Some (if (case schemaVersion e of None \<Rightarrow> 0 | Some v \<Rightarrow> v) < 1 then []
                 else orEmpty (excludedProjects e))"
  using assms
  by (auto simp: generateGlobalContext_def carried_def Let_def load_Json migrateContext_def
      orEmpty_def)

text \<open>
  Claim C3. The full merge is to return the exclusions of the prior snapshot for every
  prior snapshot. It does not when the prior \<^verbatim>\<open>context.json\<close> is below schema 1 and carries
  exclusions, as the file that \<^verbatim>\<open>exclude\<close> leaves when it runs on a file written before schema
  versions: \<open>generateGlobalContext\<close> reads the prior snapshot through \<open>migrateContext\<close>, which
  returns \<^verbatim>\<open>excludedProjects: []\<close> for it, and the merge, with an empty or a non-empty
  project list, returns no exclusion.
\<close>

theorem generateGlobalContext_drops_exclusions:
  "files excluded_store jsonPath = Some (Json unversioned_snapshot) \<and>
   loadContext excluded_store = Some unversioned_snapshot \<and>
   excludedProjects unversioned_snapshot = Some [''/home/u/Projects/old''] \<and>
   excludedProjects (generateGlobalContext ''2024-01-09T00:00:00.000Z'' excluded_store []) =
     Some [] \<and>
   excludedProjects
     (generateGlobalContext ''2024-01-09T00:00:00.000Z'' excluded_store [blog_rescanned]) =
     Some []"
  by code_simp


section \<open>Properties of the scan command\<close>

text \<open>
  Claim C4. For an existing snapshot with a project list \<open>eps\<close> and freshly scanned projects
  \<open>ps\<close>, the quick-scan merge succeeds; its projects are the existing ones whose path was not
  rescanned, in their order and unchanged, followed by \<open>ps\<close>; so every record at a rescanned
  path is a fresh one, every other record is an existing one, and no existing record at
  another path is lost. Insights, user patterns, exclusions and schema version are those of
  the existing snapshot. This is the merge the scan action performs in quick mode when a
  snapshot exists.
\<close>

theorem quickMerge_replaces_rescanned:
  assumes "projects e = Some eps"
  shows "\<exists>r. quickMerge now e ps = Inr r
       \<and> projects r = Some (filter (\<lambda>p. path p \<notin> path ` set ps) eps @ ps)
       \<and> insights r = insights e
       \<and> userPatterns r = userPatterns e
       \<and> excludedProjects r = excludedProjects e
       \<and> schemaVersion r = schemaVersion e
       \<and> (\<forall>p \<in> set eps. path p \<notin> path ` set ps \<longrightarrow> p \<in> set (orEmpty (projects r)))
       \<and> (\<forall>p \<in> set (orEmpty (projects r)). path p \<in> path ` set ps \<longrightarrow> p \<in> set ps)
       \<and> (\<forall>p \<in> set (orEmpty (projects r)). path p \<notin> path ` set ps \<longrightarrow> p \<in> set eps)
       \<and> set ps \<subseteq> set (orEmpty (projects r))
       \<and> (\<forall>opts paths st w. quick opts \<and> loadContext st = Some e
             \<longrightarrow> mergeStep w opts (Some paths) st ps = quickMerge (now_iso w) e ps)"
  using assms
  by (auto simp: quickMerge_def Let_def orEmpty_def mergeStep_def)

lemma abc_merge:
  "quickMerge ''2024-01-09T00:00:00.000Z'' abc_context [api_rescanned] =
     Inr (abc_context\<lparr>lastUpdated := Some ''2024-01-09T00:00:00.000Z'',
                       projects := Some [blog_project, notes_project, api_rescanned]\<rparr>)"
  by (simp add: quickMerge_def abc_context_def example_context_def api_rescanned_def
      api_project_def notes_project_def blog_project_def mkProject_def)

lemma abc_load: "loadContext abc_store = Some abc_context"
  by (simp add: loadContext_def abc_store_def existsSync_def readFileSync_def JSON_parse_def)

theorem quickMerge_replaces_rescanned_witness:
  "projects abc_context = Some [blog_project, api_project, notes_project] \<and>
   excludedProjects abc_context = Some [''/home/u/Projects/blog''] \<and>
   quick \<lparr>check = False, quick = True\<rparr> \<and>
   loadContext abc_store = Some abc_context \<and>
   mergeStep example_world \<lparr>check = False, quick = True\<rparr> (Some [''/home/u/Projects/api''])
       abc_store [api_rescanned] =
     Inr (abc_context\<lparr>lastUpdated := Some ''2024-01-09T00:00:00.000Z'',
                       projects := Some [blog_project, notes_project, api_rescanned]\<rparr>)"
proof -
  have p: "projects abc_context = Some [blog_project, api_project, notes_project]"
    by (simp add: abc_context_def example_context_def)
  have n: "now_iso example_world = ''2024-01-09T00:00:00.000Z''"
    by (simp add: example_world_def)
  show ?thesis
    using p abc_merge abc_load n
      quickMerge_replaces_rescanned
        [OF p, of "''2024-01-09T00:00:00.000Z''" "[api_rescanned]"]
    by (simp add: abc_context_def example_context_def)
qed

text \<open>
  Claim C5. In full-scan mode (neither \<^verbatim>\<open>--check\<close> nor \<^verbatim>\<open>--quick\<close>), when the scan yields no
  project, the action returns normally, the store is exactly what it was, and the output
  ends with the warning that no projects were found and the context was not updated.
\<close>

theorem scanAction_empty_scan_no_write:
  "\<not> check opts \<and> \<not> quick opts \<and> scanProjects None = []
     \<longrightarrow> scanAction d w opts scanProjects st =
          (Inr (), st, [Scanner_banner, No_projects_found_context_not_updated])"
  by (simp add: scanAction_def quickPlan_def)

theorem scanAction_empty_scan_no_write_witness:
  "\<not> check \<lparr>check = False, quick = False\<rparr> \<and> \<not> quick \<lparr>check = False, quick = False\<rparr> \<and>
   files full_store jsonPath = Some (Json example_context) \<and>
   scanAction reliable example_world \<lparr>check = False, quick = False\<rparr> (\<lambda>onlyPaths. [])
       full_store =
     (Inr (), full_store, [Scanner_banner, No_projects_found_context_not_updated])"
  using scanAction_empty_scan_no_write
    [of "\<lparr>check = False, quick = False\<rparr>" "\<lambda>onlyPaths. []" reliable example_world full_store]
  by (simp add: full_store_def)

end
